theory Spec2Isabelle
  imports Main "HOL-Library.Word"
begin

unbundle bit_operations_syntax

section \<open>Data model of nv\_dds.h\<close>

type_synonym uint8_t = "8 word"
type_synonym uint = "32 word"

text \<open>
  The header states its checks with \<open>assert\<close>: compiled as written (without
  \<open>NDEBUG\<close>), a failed check aborts the program. Every member function with an
  \<open>assert\<close> in its body is a computation that either aborts or returns, so its
  model returns \<open>failure + 'a\<close>.
\<close>

datatype failure = AssertionFailed

text \<open>\<open>assert(c); rest\<close>\<close>

definition assert :: "bool \<Rightarrow> (failure + 'a) \<Rightarrow> (failure + 'a)" where
  "assert c rest = (if c then rest else Inl AssertionFailed)"

text \<open>The four S3TC format enums defined at the top of the header.\<close>

definition GL_COMPRESSED_RGB_S3TC_DXT1_EXT :: uint where
  "GL_COMPRESSED_RGB_S3TC_DXT1_EXT = 0x83F0"

definition GL_COMPRESSED_RGBA_S3TC_DXT1_EXT :: uint where
  "GL_COMPRESSED_RGBA_S3TC_DXT1_EXT = 0x83F1"

definition GL_COMPRESSED_RGBA_S3TC_DXT3_EXT :: uint where
  "GL_COMPRESSED_RGBA_S3TC_DXT3_EXT = 0x83F2"

definition GL_COMPRESSED_RGBA_S3TC_DXT5_EXT :: uint where
  "GL_COMPRESSED_RGBA_S3TC_DXT5_EXT = 0x83F3"

text \<open>
  Uncompressed format enums come from the OpenGL headers the file includes
  (\<open>GL/gl.h\<close>); their values are fixed by the OpenGL registry.
\<close>

definition GL_RGB :: uint where
  "GL_RGB = 0x1907"

definition GL_RGBA :: uint where
  "GL_RGBA = 0x1908"

definition GL_LUMINANCE :: uint where
  "GL_LUMINANCE = 0x1909"

definition GL_BGR :: uint where
  "GL_BGR = 0x80E0"

definition GL_BGRA :: uint where
  "GL_BGRA = 0x80E1"

datatype TextureType = TextureNone | TextureFlat | Texture3D | TextureCubemap

text \<open>
  \<open>class CSurface\<close>: four \<open>unsigned int\<close> fields and an owned pixel buffer.
  The buffer is modelled by its contents (copies of a surface are deep copies, so two
  surfaces never share a buffer).
\<close>

record CSurface =
  m_width :: uint
  m_height :: uint
  m_depth :: uint
  m_size :: uint
  m_pixels :: "uint8_t list"

text \<open>
  \<open>class CTexture : public CSurface\<close>: the surface itself is the base level,
  \<open>std::deque<CSurface> m_mipmaps\<close> holds the further levels.
\<close>

record CTexture = CSurface +
  m_mipmaps :: "CSurface list"

record CDDSImage =
  m_format :: uint
  m_components :: uint
  m_type :: TextureType
  m_valid :: bool
  m_images :: "CTexture list"

section \<open>CSurface\<close>

definition CSurface_get_width :: "'a CSurface_scheme \<Rightarrow> uint" where
  "CSurface_get_width s = m_width s"

definition CSurface_get_height :: "'a CSurface_scheme \<Rightarrow> uint" where
  "CSurface_get_height s = m_height s"

definition CSurface_get_depth :: "'a CSurface_scheme \<Rightarrow> uint" where
  "CSurface_get_depth s = m_depth s"

definition CSurface_get_size :: "'a CSurface_scheme \<Rightarrow> uint" where
  "CSurface_get_size s = m_size s"

text \<open>
  Modelled from the spec: \<open>CSurface::operator uint8_t*\<close> is declared in the header
  and its body is not part of it; a Surface hands out its owned byte buffer.
\<close>

definition CSurface_operator_uint8_ptr :: "'a CSurface_scheme \<Rightarrow> uint8_t list" where
  "CSurface_operator_uint8_ptr s = m_pixels s"

section \<open>CTexture\<close>

text \<open>
  \<open>get_mipmap\<close> exists as a public \<open>const\<close> member and as a protected
  non-\<open>const\<close> one with the same body. \<open>index\<close> is an \<open>unsigned int\<close>,
  compared with the \<open>size_t\<close> length of the deque.
\<close>

definition CTexture_get_mipmap :: "CTexture \<Rightarrow> uint \<Rightarrow> failure + CSurface" where
  "CTexture_get_mipmap t index =
     assert (m_mipmaps t \<noteq> [])
    (assert (unat index < length (m_mipmaps t))
    (Inr (m_mipmaps t ! unat index)))"

definition CTexture_get_mipmap_protected :: "CTexture \<Rightarrow> uint \<Rightarrow> failure + CSurface" where
  "CTexture_get_mipmap_protected t index =
     assert (m_mipmaps t \<noteq> [])
    (assert (unat index < length (m_mipmaps t))
    (Inr (m_mipmaps t ! unat index)))"

text \<open>\<open>m_mipmaps.push_back(mipmap)\<close> stores a copy of the argument at the end.\<close>

definition CTexture_add_mipmap :: "CTexture \<Rightarrow> CSurface \<Rightarrow> CTexture" where
  "CTexture_add_mipmap t mipmap = t\<lparr>m_mipmaps := m_mipmaps t @ [mipmap]\<rparr>"

text \<open>\<open>(unsigned int) m_mipmaps.size()\<close>: the length, cut to 32 bits.\<close>

definition CTexture_get_num_mipmaps :: "CTexture \<Rightarrow> uint" where
  "CTexture_get_num_mipmaps t = of_nat (length (m_mipmaps t))"

section \<open>CDDSImage\<close>

definition CDDSImage_operator_uint8_ptr :: "CDDSImage \<Rightarrow> failure + uint8_t list" where
  "CDDSImage_operator_uint8_ptr img =
     assert (m_valid img)
    (assert (m_images img \<noteq> [])
    (Inr (CSurface_operator_uint8_ptr (m_images img ! 0))))"

definition CDDSImage_get_width :: "CDDSImage \<Rightarrow> failure + uint" where
  "CDDSImage_get_width img =
     assert (m_valid img)
    (assert (m_images img \<noteq> [])
    (Inr (CSurface_get_width (m_images img ! 0))))"

definition CDDSImage_get_height :: "CDDSImage \<Rightarrow> failure + uint" where
  "CDDSImage_get_height img =
     assert (m_valid img)
    (assert (m_images img \<noteq> [])
    (Inr (CSurface_get_height (m_images img ! 0))))"

definition CDDSImage_get_depth :: "CDDSImage \<Rightarrow> failure + uint" where
  "CDDSImage_get_depth img =
     assert (m_valid img)
    (assert (m_images img \<noteq> [])
    (Inr (CSurface_get_depth (m_images img ! 0))))"

definition CDDSImage_get_size :: "CDDSImage \<Rightarrow> failure + uint" where
  "CDDSImage_get_size img =
     assert (m_valid img)
    (assert (m_images img \<noteq> [])
    (Inr (CSurface_get_size (m_images img ! 0))))"

definition CDDSImage_get_num_mipmaps :: "CDDSImage \<Rightarrow> failure + uint" where
  "CDDSImage_get_num_mipmaps img =
     assert (m_valid img)
    (assert (m_images img \<noteq> [])
    (Inr (CTexture_get_num_mipmaps (m_images img ! 0))))"

definition CDDSImage_get_mipmap :: "CDDSImage \<Rightarrow> uint \<Rightarrow> failure + CSurface" where
  "CDDSImage_get_mipmap img index =
     assert (m_valid img)
    (assert (m_images img \<noteq> [])
    (assert (index < CTexture_get_num_mipmaps (m_images img ! 0))
    (CTexture_get_mipmap (m_images img ! 0) index)))"

definition CDDSImage_get_cubemap_face :: "CDDSImage \<Rightarrow> uint \<Rightarrow> failure + CTexture" where
  "CDDSImage_get_cubemap_face img face =
     assert (m_valid img)
    (assert (m_images img \<noteq> [])
    (assert (length (m_images img) = 6)
    (assert (m_type img = TextureCubemap)
    (assert (face < 6)
    (Inr (m_images img ! unat face))))))"

text \<open>
  The three metadata accessors have no \<open>assert\<close> in their bodies. They are given the
  same result type as the other accessors so that "aborts" and "returns" can be told
  apart for them too.
\<close>

definition CDDSImage_get_components :: "CDDSImage \<Rightarrow> failure + uint" where
  "CDDSImage_get_components img = Inr (m_components img)"

definition CDDSImage_get_format :: "CDDSImage \<Rightarrow> failure + uint" where
  "CDDSImage_get_format img = Inr (m_format img)"

definition CDDSImage_get_type :: "CDDSImage \<Rightarrow> failure + TextureType" where
  "CDDSImage_get_type img = Inr (m_type img)"

definition is_compressed :: "CDDSImage \<Rightarrow> bool" where
  "is_compressed img \<longleftrightarrow>
     m_format img = GL_COMPRESSED_RGBA_S3TC_DXT1_EXT
   \<or> m_format img = GL_COMPRESSED_RGBA_S3TC_DXT3_EXT
   \<or> m_format img = GL_COMPRESSED_RGBA_S3TC_DXT5_EXT"

definition is_cubemap :: "CDDSImage \<Rightarrow> bool" where
  "is_cubemap img \<longleftrightarrow> m_type img = TextureCubemap"

definition is_volume :: "CDDSImage \<Rightarrow> bool" where
  "is_volume img \<longleftrightarrow> m_type img = Texture3D"

definition is_valid :: "CDDSImage \<Rightarrow> bool" where
  "is_valid img \<longleftrightarrow> m_valid img"

text \<open>
  \<open>((width * bpp + 31) & -32) >> 3\<close> on \<open>unsigned int\<close>: the \<open>int\<close> constant
  \<open>-32\<close> is converted to \<open>unsigned int\<close> for the conjunction.
\<close>

definition get_dword_aligned_linesize :: "uint \<Rightarrow> uint \<Rightarrow> uint" where
  "get_dword_aligned_linesize width bpp = drop_bit 3 ((width * bpp + 31) AND (- 32))"

text \<open>
  \<open>is_dword_aligned\<close> stores both line sizes in \<open>int\<close> variables and compares
  those; \<open>get_width()\<close> is called twice and asserts each time.
\<close>

definition is_dword_aligned :: "CDDSImage \<Rightarrow> failure + bool" where
  "is_dword_aligned img =
     assert (m_valid img)
    (case CDDSImage_get_width img of
       Inl e \<Rightarrow> Inl e
     | Inr w1 \<Rightarrow>
        (let dwordLineSize = sint (get_dword_aligned_linesize w1 (m_components img * 8))
         in case CDDSImage_get_width img of
              Inl e \<Rightarrow> Inl e
            | Inr w2 \<Rightarrow>
               (let curLineSize = sint (w2 * m_components img)
                in Inr (dwordLineSize = curLineSize))))"

section \<open>Block structs\<close>

text \<open>
  The three block structs of the header are made of \<open>uint8_t\<close> and \<open>uint16_t\<close>
  members and arrays of them. Their size follows the layout rule of the C++ ABIs the
  header is compiled for: every member sits at the next offset that is a multiple of
  its alignment, and the struct ends at a multiple of its largest member alignment.
\<close>

datatype ctype = UInt8 | UInt16 | Array ctype nat

fun sizeof :: "ctype \<Rightarrow> nat" where
  "sizeof UInt8 = 1"
| "sizeof UInt16 = 2"
| "sizeof (Array t n) = n * sizeof t"

fun alignof :: "ctype \<Rightarrow> nat" where
  "alignof UInt8 = 1"
| "alignof UInt16 = 2"
| "alignof (Array t n) = alignof t"

definition align_up :: "nat \<Rightarrow> nat \<Rightarrow> nat" where
  "align_up a off = ((off + a - 1) div a) * a"

fun struct_end :: "nat \<Rightarrow> (string \<times> ctype) list \<Rightarrow> nat" where
  "struct_end off [] = off"
| "struct_end off (m # ms) = struct_end (align_up (alignof (snd m)) off + sizeof (snd m)) ms"

definition struct_align :: "(string \<times> ctype) list \<Rightarrow> nat" where
  "struct_align ms = foldr (\<lambda>m a. max (alignof (snd m)) a) ms 1"

definition struct_size :: "(string \<times> ctype) list \<Rightarrow> nat" where
  "struct_size ms = align_up (struct_align ms) (struct_end 0 ms)"

definition DXTColBlock :: "(string \<times> ctype) list" where
  "DXTColBlock = [(''col0'', UInt16), (''col1'', UInt16), (''row'', Array UInt8 4)]"

definition DXT3AlphaBlock :: "(string \<times> ctype) list" where
  "DXT3AlphaBlock = [(''row'', Array UInt16 4)]"

definition DXT5AlphaBlock :: "(string \<times> ctype) list" where
  "DXT5AlphaBlock = [(''alpha0'', UInt8), (''alpha1'', UInt8), (''row'', Array UInt8 6)]"

section \<open>Format arithmetic\<close>

text \<open>
  Modelled from the spec: the body of \<open>CDDSImage::size_dxtc\<close> is not in the header.
  Section 4.1: the byte size of one compressed-block-aligned image is
  \<open>ceil(width/4) * ceil(height/4) * blockBytes\<close>, where \<open>blockBytes\<close> is 8 for DXT1
  and 16 for DXT3 and DXT5, chosen by the format field of the image. The spec fixes
  \<open>blockBytes\<close> for the three compressed formats only.
\<close>

definition blockBytes :: "uint \<Rightarrow> nat" where
  "blockBytes format = (if format = GL_COMPRESSED_RGBA_S3TC_DXT1_EXT then 8 else 16)"

definition size_dxtc :: "CDDSImage \<Rightarrow> uint \<Rightarrow> uint \<Rightarrow> uint" where
  "size_dxtc img width height =
     of_nat (((unat width + 3) div 4) * ((unat height + 3) div 4) * blockBytes (m_format img))"


section \<open>Flip engine\<close>

text \<open>
  Modelled from the spec: \<open>CDDSImage::flip\<close>, \<open>flip_texture\<close>,
  \<open>flip_blocks_dxtc1\<close>, \<open>flip_blocks_dxtc3\<close>, \<open>flip_blocks_dxtc5\<close> and
  \<open>flip_dxt5_alpha\<close> are declared in the header and their bodies are not in it. The
  definitions below follow section 4.3 of the spec. A pixel buffer is the list of its
  bytes; a flip that would address bytes beyond the buffer has no result (\<open>None\<close>).
\<close>

text \<open>The first \<open>k\<close> rows of \<open>n\<close> bytes each.\<close>

fun chop :: "nat \<Rightarrow> nat \<Rightarrow> 'a list \<Rightarrow> 'a list list" where
  "chop n 0 xs = []"
| "chop n (Suc k) xs = take n xs # chop n k (drop n xs)"

text \<open>
  Rows are swapped pairwise from the top and the bottom inward, for the first half of
  the rows: row \<open>i\<close> and row \<open>h - 1 - i\<close> change places for every \<open>i < h div 2\<close>, and
  \<open>f\<close> is applied to both rows of a swapped pair. The middle row of an odd number of
  rows stays as it is.
\<close>

definition swap_rows :: "('a list \<Rightarrow> 'a list) \<Rightarrow> 'a list list \<Rightarrow> 'a list list" where
  "swap_rows f rows =
     (let h = length rows
      in map (\<lambda>j. if j < h div 2 \<or> h - h div 2 \<le> j then f (rows ! (h - 1 - j)) else rows ! j)
           [0..<h])"

definition flip_lines ::
  "('a list \<Rightarrow> 'a list) \<Rightarrow> nat \<Rightarrow> nat \<Rightarrow> 'a list \<Rightarrow> 'a list option" where
  "flip_lines f linesize count buf =
     (if length buf < count * linesize then None
      else Some (concat (swap_rows f (chop linesize count buf)) @ drop (count * linesize) buf))"

text \<open>
  A colour block (\<open>DXTColBlock\<close>, 8 bytes): two 16-bit colours, then \<open>row[0..3]\<close>.
  Flipping it reverses the four row bytes.
\<close>

definition flip_col_block :: "uint8_t list \<Rightarrow> uint8_t list" where
  "flip_col_block b = take 4 b @ rev (take 4 (drop 4 b))"

text \<open>
  A DXT3 alpha block (\<open>DXT3AlphaBlock\<close>, 8 bytes): four 16-bit rows, reversed in
  lock-step with the rows of the colour block.
\<close>

definition flip_dxt3_alpha :: "uint8_t list \<Rightarrow> uint8_t list" where
  "flip_dxt3_alpha b = concat (rev (chop 2 4 b))"

text \<open>
  Digits of a number, least significant first, and back: the 6-byte field of a DXT5
  alpha block is one 48-bit number holding sixteen 3-bit indices.
\<close>

fun digits :: "nat \<Rightarrow> nat \<Rightarrow> nat \<Rightarrow> nat list" where
  "digits b 0 x = []"
| "digits b (Suc n) x = x mod b # digits b n (x div b)"

fun undigits :: "nat \<Rightarrow> nat list \<Rightarrow> nat" where
  "undigits b [] = 0"
| "undigits b (d # ds) = d + b * undigits b ds"

text \<open>
  A DXT5 alpha block (\<open>DXT5AlphaBlock\<close>, 8 bytes): two reference values, then the
  6-byte bitstream. The sixteen 3-bit indices are decoded into a 4 by 4 grid, the order
  of the rows of the grid is reversed, and the indices are packed again.
  \<open>flip_indices\<close> does so on the bitstream read as one number.
\<close>

definition flip_indices :: "nat \<Rightarrow> nat" where
  "flip_indices bits =
     (let indices = digits 8 16 bits;
          grid = chop 4 4 indices
      in undigits 8 (concat (rev grid)))"

definition flip_dxt5_alpha :: "uint8_t list \<Rightarrow> uint8_t list" where
  "flip_dxt5_alpha block =
     take 2 block
     @ map of_nat (digits 256 6 (flip_indices (undigits 256 (map unat (take 6 (drop 2 block))))))"

text \<open>One line of \<open>numBlocks\<close> blocks, each flipped in itself.\<close>

definition flip_blocks_dxtc1 :: "uint8_t list \<Rightarrow> nat \<Rightarrow> uint8_t list" where
  "flip_blocks_dxtc1 line numBlocks = concat (map flip_col_block (chop 8 numBlocks line))"

definition flip_blocks_dxtc3 :: "uint8_t list \<Rightarrow> nat \<Rightarrow> uint8_t list" where
  "flip_blocks_dxtc3 line numBlocks =
     concat (map (\<lambda>b. flip_dxt3_alpha (take 8 b) @ flip_col_block (drop 8 b))
       (chop 16 numBlocks line))"

definition flip_blocks_dxtc5 :: "uint8_t list \<Rightarrow> nat \<Rightarrow> uint8_t list" where
  "flip_blocks_dxtc5 line numBlocks =
     concat (map (\<lambda>b. flip_dxt5_alpha (take 8 b) @ flip_col_block (drop 8 b))
       (chop 16 numBlocks line))"

text \<open>
  \<open>flip\<close> of one surface. Uncompressed: the rows, of stride
  \<open>get_dword_aligned_linesize\<close>, are put in reverse order. Compressed: the block-rows
  are put in reverse order, the partial last block-row of a height that is not a
  multiple of 4 counted in, and the blocks of every swapped block-row are flipped in
  themselves.
\<close>

definition flip :: "CDDSImage \<Rightarrow> 'a CSurface_scheme \<Rightarrow> 'a CSurface_scheme option" where
  "flip img surface =
     (if \<not> is_compressed img then
        map_option (\<lambda>p. surface\<lparr>m_pixels := p\<rparr>)
          (flip_lines id
             (unat (get_dword_aligned_linesize (m_width surface) (m_components img * 8)))
             (unat (m_height surface)) (m_pixels surface))
      else
        (let xblocks = (unat (m_width surface) + 3) div 4;
             yblocks = (unat (m_height surface) + 3) div 4;
             linesize = xblocks * blockBytes (m_format img);
             flipblocks =
               (if m_format img = GL_COMPRESSED_RGBA_S3TC_DXT1_EXT then flip_blocks_dxtc1
                else if m_format img = GL_COMPRESSED_RGBA_S3TC_DXT3_EXT then flip_blocks_dxtc3
                else flip_blocks_dxtc5)
         in map_option (\<lambda>p. surface\<lparr>m_pixels := p\<rparr>)
              (flip_lines (\<lambda>line. flipblocks line xblocks) linesize yblocks
                 (m_pixels surface))))"



section \<open>Concrete images used as test inputs\<close>

definition example_level1 :: CSurface where
  "example_level1 = \<lparr>m_width = 2, m_height = 2, m_depth = 1, m_size = 4,
     m_pixels = [10, 11, 12, 13]\<rparr>"

definition example_level2 :: CSurface where
  "example_level2 = \<lparr>m_width = 1, m_height = 1, m_depth = 1, m_size = 1,
     m_pixels = [20]\<rparr>"

text \<open>A 4 by 4 single-component texture with two further levels.\<close>

definition example_texture :: CTexture where
  "example_texture = \<lparr>m_width = 4, m_height = 4, m_depth = 1, m_size = 16,
     m_pixels = [0, 1, 2, 3, 4, 5, 6, 7, 8, 9, 10, 11, 12, 13, 14, 15],
     m_mipmaps = [example_level1, example_level2]\<rparr>"

definition example_image :: CDDSImage where
  "example_image = \<lparr>m_format = GL_LUMINANCE, m_components = 1, m_type = TextureFlat,
     m_valid = True, m_images = [example_texture]\<rparr>"

text \<open>An image that holds nothing: the flag is off and there are no textures.\<close>

definition invalid_image :: CDDSImage where
  "invalid_image = \<lparr>m_format = 0, m_components = 0, m_type = TextureNone,
     m_valid = False, m_images = []\<rparr>"

text \<open>A texture whose deque holds \<open>2 ^ 32\<close> further levels.\<close>

definition many_levels :: CTexture where
  "many_levels = \<lparr>m_width = 4, m_height = 4, m_depth = 1, m_size = 16,
     m_pixels = [0, 1, 2, 3, 4, 5, 6, 7, 8, 9, 10, 11, 12, 13, 14, 15],
     m_mipmaps = replicate 4294967296 example_level1\<rparr>"

text \<open>One 4 by 4 block of opaque DXT1 data under the \<open>RGB\<close> enum of the header.\<close>

definition opaque_dxt1_image :: CDDSImage where
  "opaque_dxt1_image = \<lparr>m_format = GL_COMPRESSED_RGB_S3TC_DXT1_EXT, m_components = 3,
     m_type = TextureFlat, m_valid = True,
     m_images = [\<lparr>m_width = 4, m_height = 4, m_depth = 1, m_size = 8,
       m_pixels = [0, 248, 31, 0, 27, 27, 27, 27], m_mipmaps = []\<rparr>]\<rparr>"

text \<open>A single row of \<open>2 ^ 29\<close> one-byte pixels.\<close>

definition wide_image :: CDDSImage where
  "wide_image = \<lparr>m_format = GL_LUMINANCE, m_components = 1, m_type = TextureFlat,
     m_valid = True,
     m_images = [\<lparr>m_width = 536870912, m_height = 1, m_depth = 1, m_size = 536870912,
       m_pixels = replicate 536870912 0, m_mipmaps = []\<rparr>]\<rparr>"

text \<open>A cubemap of six one-pixel faces; face \<open>k\<close> holds the byte \<open>k\<close>.\<close>

definition face_texture :: "uint8_t \<Rightarrow> CTexture" where
  "face_texture k = \<lparr>m_width = 1, m_height = 1, m_depth = 1, m_size = 1,
     m_pixels = [k], m_mipmaps = []\<rparr>"

definition example_cubemap :: CDDSImage where
  "example_cubemap = \<lparr>m_format = GL_LUMINANCE, m_components = 1, m_type = TextureCubemap,
     m_valid = True,
     m_images = [face_texture 0, face_texture 1, face_texture 2,
                 face_texture 3, face_texture 4, face_texture 5]\<rparr>"






section \<open>Auxiliary facts\<close>

lemma round4_small: "(4 * ((8 * n + 31) div 32) = n) = (4 dvd n)" for n :: nat
  by presburger

lemma round4_wrap:
  fixes n :: nat
  assumes "n < 4294967296"
  shows "(4 * (((8 * n + 31) mod 4294967296) div 32) = n) = (4 dvd n \<and> n < 536870912)"
proof -
  consider (small) "n \<le> 536870908" | (edge) "536870908 < n" "n < 536870912" | (big) "536870912 \<le> n"
    by linarith
  then show ?thesis
  proof cases
    case small
    then have "8 * n + 31 < 4294967296" by simp
    then have "(8 * n + 31) mod 4294967296 = 8 * n + 31" by simp
    with small show ?thesis by (simp add: round4_small)
  next
    case edge
    then have "n = 536870909 \<or> n = 536870910 \<or> n = 536870911" by linarith
    then show ?thesis by auto
  next
    case big
    have "(8 * n + 31) mod 4294967296 < 4294967296" by simp
    then have "((8 * n + 31) mod 4294967296) div 32 < 134217728" by simp
    with big show ?thesis by simp
  qed
qed

lemma and_neg32: "x AND (- 32) = push_bit 5 (drop_bit 5 x)" for x :: uint
proof -
  have "(- 32 :: uint) = NOT (mask 5)"
    by (simp add: mask_eq_exp_minus_1)
  moreover have "x AND NOT (mask 5) = push_bit 5 (drop_bit 5 x)"
    by (rule bit_word_eqI) (auto simp add: bit_simps)
  ultimately show ?thesis by simp
qed

lemma unat_linesize: "unat (get_dword_aligned_linesize w bpp) = 4 * (unat (w * bpp + 31) div 32)"
proof -
  define x where "x = w * bpp + 31"
  have lt: "unat x < 4294967296"
    using unsigned_less [of x, where 'a = nat] by simp
  have "unat (drop_bit 3 (push_bit 5 (drop_bit 5 x))) = (32 * (unat x div 32)) mod 4294967296 div 8"
  proof -
    have "unat (drop_bit 3 (push_bit 5 (drop_bit 5 x)))
        = drop_bit 3 (take_bit 32 (push_bit 5 (drop_bit 5 (unat x))))"
      by (simp only: unat_drop_bit_eq unsigned_push_bit_eq) simp
    then show ?thesis
      by (simp add: drop_bit_eq_div push_bit_eq_mult take_bit_eq_mod mult.commute)
  qed
  also have "32 * (unat x div 32) < 4294967296"
    using lt by simp
  then have "(32 * (unat x div 32)) mod 4294967296 div 8 = 4 * (unat x div 32)"
    by simp
  finally show ?thesis
    by (simp add: get_dword_aligned_linesize_def and_neg32 x_def)
qed

lemma linesize_eq_iff:
  "(get_dword_aligned_linesize w (c * 8) = w * c) = (4 dvd unat (w * c) \<and> unat (w * c) < 536870912)"
proof -
  define a where "a = w * c"
  define n where "n = unat a"
  have lt: "n < 4294967296"
    unfolding n_def using unsigned_less [of a, where 'a = nat] by simp
  have "w * (c * 8) + 31 = a * 8 + 31" by (simp add: a_def)
  moreover have "unat (a * 8 + 31) = (8 * n + 31) mod 4294967296"
    by (simp add: n_def unat_word_ariths mod_simps mult.commute)
  ultimately have "unat (get_dword_aligned_linesize w (c * 8)) = 4 * (((8 * n + 31) mod 4294967296) div 32)"
    by (simp only: unat_linesize)
  then show ?thesis
    unfolding word_unat_eq_iff [of "get_dword_aligned_linesize w (c * 8)"]
    using round4_wrap [OF lt] by (simp add: n_def a_def)
qed

lemma linesize_examples:
  "get_dword_aligned_linesize 3 24 = 12" "get_dword_aligned_linesize 1 24 = 4"
  by (simp_all add: get_dword_aligned_linesize_def)

lemma is_dword_aligned_eq:
  "is_dword_aligned img =
     (if m_valid img \<and> m_images img \<noteq> []
      then Inr (get_dword_aligned_linesize (m_width (m_images img ! 0)) (m_components img * 8)
                = m_width (m_images img ! 0) * m_components img)
      else Inl AssertionFailed)"
  by (simp add: is_dword_aligned_def CDDSImage_get_width_def CSurface_get_width_def
      assert_def Let_def word_eq_iff_signed [symmetric])

lemma CTexture_get_mipmap_eq:
  "CTexture_get_mipmap t index =
     (if unat index < length (m_mipmaps t) then Inr (m_mipmaps t ! unat index)
      else Inl AssertionFailed)"
  by (auto simp add: CTexture_get_mipmap_def assert_def)

lemma less_count_in_range:
  fixes index :: uint
  assumes "index < of_nat n"
  shows "unat index < n"
proof -
  from assms have "unat index < unat (of_nat n :: uint)"
    by (simp add: word_less_nat_alt)
  also have "unat (of_nat n :: uint) \<le> n"
    by (simp add: unat_of_nat)
  finally show ?thesis .
qed

lemma CDDSImage_get_mipmap_eq:
  "CDDSImage_get_mipmap img index =
     (if m_valid img \<and> m_images img \<noteq> []
         \<and> index < of_nat (length (m_mipmaps (m_images img ! 0)))
      then Inr (m_mipmaps (m_images img ! 0) ! unat index)
      else Inl AssertionFailed)"
  by (auto simp add: CDDSImage_get_mipmap_def CTexture_get_mipmap_eq CTexture_get_num_mipmaps_def
      assert_def dest: less_count_in_range)

section \<open>Accessors of CDDSImage\<close>

text \<open>
  Claim C1, as the code has it. The accessors that read the texture sequence
  (\<open>operator uint8_t*\<close>, \<open>get_width\<close>, \<open>get_height\<close>, \<open>get_depth\<close>,
  \<open>get_size\<close>, \<open>get_num_mipmaps\<close>, \<open>get_mipmap\<close>, \<open>get_cubemap_face\<close>) fail
  their assertion on every image that is not valid or holds no texture. On a valid
  image that holds a texture, the first six return the data of the first texture;
  \<open>get_mipmap\<close> asserts in addition that the index is below the number of levels of
  the first texture and returns that level; \<open>get_cubemap_face\<close> asserts in addition
  six textures, the cubemap type and \<open>face < 6\<close>, and returns the texture at position
  \<open>face\<close>. The metadata accessors \<open>get_components\<close>, \<open>get_format\<close> and
  \<open>get_type\<close> have no assertion: they return the stored field of any image, valid
  or not.
\<close>

theorem accessors_assert_validity:
  "(\<not> m_valid img \<or> m_images img = [] \<longrightarrow>
      CDDSImage_operator_uint8_ptr img = Inl AssertionFailed
    \<and> CDDSImage_get_width img = Inl AssertionFailed
    \<and> CDDSImage_get_height img = Inl AssertionFailed
    \<and> CDDSImage_get_depth img = Inl AssertionFailed
    \<and> CDDSImage_get_size img = Inl AssertionFailed
    \<and> CDDSImage_get_num_mipmaps img = Inl AssertionFailed
    \<and> CDDSImage_get_mipmap img index = Inl AssertionFailed
    \<and> CDDSImage_get_cubemap_face img face = Inl AssertionFailed)
 \<and> (m_valid img \<and> m_images img \<noteq> [] \<longrightarrow>
      CDDSImage_operator_uint8_ptr img = Inr (m_pixels (m_images img ! 0))
    \<and> CDDSImage_get_width img = Inr (m_width (m_images img ! 0))
    \<and> CDDSImage_get_height img = Inr (m_height (m_images img ! 0))
    \<and> CDDSImage_get_depth img = Inr (m_depth (m_images img ! 0))
    \<and> CDDSImage_get_size img = Inr (m_size (m_images img ! 0))
    \<and> CDDSImage_get_num_mipmaps img = Inr (of_nat (length (m_mipmaps (m_images img ! 0))))
    \<and> CDDSImage_get_mipmap img index =
        (if index < of_nat (length (m_mipmaps (m_images img ! 0)))
         then Inr (m_mipmaps (m_images img ! 0) ! unat index) else Inl AssertionFailed)
    \<and> CDDSImage_get_cubemap_face img face =
        (if length (m_images img) = 6 \<and> m_type img = TextureCubemap \<and> face < 6
         then Inr (m_images img ! unat face) else Inl AssertionFailed))
 \<and> CDDSImage_get_components img = Inr (m_components img)
 \<and> CDDSImage_get_format img = Inr (m_format img)
 \<and> CDDSImage_get_type img = Inr (m_type img)"
  by (auto simp add: CDDSImage_operator_uint8_ptr_def CDDSImage_get_width_def
      CDDSImage_get_height_def CDDSImage_get_depth_def CDDSImage_get_size_def
      CDDSImage_get_num_mipmaps_def CDDSImage_get_cubemap_face_def
      CDDSImage_get_mipmap_eq assert_def
      CSurface_operator_uint8_ptr_def CSurface_get_width_def
      CSurface_get_height_def CSurface_get_depth_def CSurface_get_size_def
      CTexture_get_num_mipmaps_def CDDSImage_get_components_def CDDSImage_get_format_def
      CDDSImage_get_type_def)

theorem accessors_assert_validity_witness:
  "\<not> m_valid invalid_image \<and> m_images invalid_image = []
 \<and> CDDSImage_get_width invalid_image = Inl AssertionFailed
 \<and> CDDSImage_get_mipmap invalid_image 0 = Inl AssertionFailed
 \<and> CDDSImage_get_cubemap_face invalid_image 0 = Inl AssertionFailed
 \<and> m_valid example_image \<and> m_images example_image \<noteq> []
 \<and> CDDSImage_get_width example_image = Inr 4
 \<and> CDDSImage_get_size example_image = Inr 16
 \<and> CDDSImage_get_num_mipmaps example_image = Inr 2
 \<and> CDDSImage_get_mipmap example_image 1 = Inr example_level2
 \<and> CDDSImage_get_mipmap example_image 2 = Inl AssertionFailed
 \<and> CDDSImage_get_cubemap_face example_image 0 = Inl AssertionFailed
 \<and> m_valid example_cubemap \<and> m_images example_cubemap \<noteq> []
 \<and> CDDSImage_get_cubemap_face example_cubemap 4 = Inr (face_texture 4)
 \<and> CDDSImage_get_cubemap_face example_cubemap 6 = Inl AssertionFailed"
  using accessors_assert_validity [of invalid_image 0 0]
    accessors_assert_validity [of example_image 1 0]
    accessors_assert_validity [of example_image 2 0]
    accessors_assert_validity [of example_cubemap 0 4]
    accessors_assert_validity [of example_cubemap 0 6]
  by (simp add: invalid_image_def example_image_def example_texture_def example_cubemap_def)

text \<open>
  The claim as stated, that the metadata accessors fail fast on an invalid image as
  well, does not hold: on the image that holds nothing they return the stored fields.
\<close>

theorem metadata_accessors_counterexample:
  "\<not> m_valid invalid_image \<and> m_images invalid_image = []
 \<and> CDDSImage_get_components invalid_image = Inr 0
 \<and> CDDSImage_get_format invalid_image = Inr 0
 \<and> CDDSImage_get_type invalid_image = Inr TextureNone"
  by (simp add: invalid_image_def CDDSImage_get_components_def CDDSImage_get_format_def
      CDDSImage_get_type_def)

section \<open>Line size\<close>

text \<open>
  Claim C2, as the code has it. In 32-bit unsigned arithmetic
  \<open>get_dword_aligned_linesize w bpp\<close> is \<open>((w * bpp + 31) & ~31) >> 3\<close>, which is
  four times the number of full 32-bit groups in the (32-bit) value \<open>w * bpp + 31\<close>.
  Whenever \<open>w * bpp + 31\<close> does not wrap, the result is the least multiple of 4 bytes
  that holds \<open>w * bpp\<close> bits: the scanline rounded up to a multiple of 4 bytes.
  3 pixels of 24 bits take 12 bytes, 1 pixel of 24 bits takes 4.
\<close>

theorem linesize_formula:
  "get_dword_aligned_linesize w bpp = drop_bit 3 ((w * bpp + 31) AND NOT 31)
 \<and> unat (get_dword_aligned_linesize w bpp) = 4 * (unat (w * bpp + 31) div 32)
 \<and> (unat w * unat bpp + 31 < 2 ^ 32 \<longrightarrow>
      4 dvd unat (get_dword_aligned_linesize w bpp)
    \<and> unat w * unat bpp \<le> 8 * unat (get_dword_aligned_linesize w bpp)
    \<and> 8 * unat (get_dword_aligned_linesize w bpp) < unat w * unat bpp + 32)
 \<and> get_dword_aligned_linesize 3 24 = 12
 \<and> get_dword_aligned_linesize 1 24 = 4"
proof -
  have f: "get_dword_aligned_linesize w bpp = drop_bit 3 ((w * bpp + 31) AND NOT 31)"
    by (simp add: get_dword_aligned_linesize_def)
  have r: "4 dvd unat (get_dword_aligned_linesize w bpp)
    \<and> unat w * unat bpp \<le> 8 * unat (get_dword_aligned_linesize w bpp)
    \<and> 8 * unat (get_dword_aligned_linesize w bpp) < unat w * unat bpp + 32"
    if "unat w * unat bpp + 31 < 2 ^ 32"
  proof -
    from that have "unat (w * bpp + 31) = unat w * unat bpp + 31"
      by (simp add: unat_word_ariths)
    then have "unat (get_dword_aligned_linesize w bpp) = 4 * ((unat w * unat bpp + 31) div 32)"
      by (simp add: unat_linesize)
    then show ?thesis
      by presburger
  qed
  from f r unat_linesize [of w bpp] linesize_examples show ?thesis
    by blast
qed

theorem linesize_formula_witness:
  "unat (3 :: uint) * unat (24 :: uint) + 31 < 2 ^ 32
 \<and> unat (get_dword_aligned_linesize 3 24) = 12
 \<and> unat (1 :: uint) * unat (24 :: uint) + 31 < 2 ^ 32
 \<and> unat (get_dword_aligned_linesize 1 24) = 4"
  using linesize_formula [of 3 24] linesize_formula [of 1 24]
  by simp

text \<open>
  The claim as stated has no bound on \<open>w\<close> and \<open>bpp\<close>: for \<open>2 ^ 29\<close> pixels of
  8 bits the scanline is \<open>2 ^ 29\<close> bytes, a multiple of 4 that fits in 32 bits, the
  bit count \<open>2 ^ 32\<close> wraps to 0, and the result is 0.
\<close>

theorem linesize_wrap_counterexample:
  "get_dword_aligned_linesize 536870912 8 = 0
 \<and> unat (536870912 :: uint) * unat (8 :: uint) div 8 = 536870912
 \<and> 4 dvd (536870912 :: nat)
 \<and> (536870912 :: nat) < 2 ^ 32"
proof -
  have "unat (get_dword_aligned_linesize 536870912 8) = 0"
    unfolding unat_linesize by simp
  then have "get_dword_aligned_linesize 536870912 8 = 0"
    by (simp add: unat_eq_0)
  then show ?thesis
    by simp
qed

section \<open>Compressed formats\<close>

text \<open>
  Claim C3, as the code has it. \<open>is_compressed\<close> is true exactly for the three format
  enums \<open>GL_COMPRESSED_RGBA_S3TC_DXT1_EXT\<close>, \<open>GL_COMPRESSED_RGBA_S3TC_DXT3_EXT\<close> and
  \<open>GL_COMPRESSED_RGBA_S3TC_DXT5_EXT\<close>; it is false for every other format value: the
  uncompressed formats and also \<open>GL_COMPRESSED_RGB_S3TC_DXT1_EXT\<close>, the opaque DXT1
  enum, which the header defines and the predicate does not list.
\<close>

theorem is_compressed_three_enums:
  "(m_format img \<in> {GL_COMPRESSED_RGBA_S3TC_DXT1_EXT, GL_COMPRESSED_RGBA_S3TC_DXT3_EXT,
      GL_COMPRESSED_RGBA_S3TC_DXT5_EXT} \<longrightarrow> is_compressed img)
 \<and> (m_format img \<notin> {GL_COMPRESSED_RGBA_S3TC_DXT1_EXT, GL_COMPRESSED_RGBA_S3TC_DXT3_EXT,
      GL_COMPRESSED_RGBA_S3TC_DXT5_EXT} \<longrightarrow> \<not> is_compressed img)
 \<and> (m_format img \<in> {GL_RGB, GL_RGBA, GL_LUMINANCE, GL_BGR, GL_BGRA, GL_COMPRESSED_RGB_S3TC_DXT1_EXT}
      \<longrightarrow> \<not> is_compressed img)"
  by (auto simp add: is_compressed_def GL_COMPRESSED_RGB_S3TC_DXT1_EXT_def
      GL_COMPRESSED_RGBA_S3TC_DXT1_EXT_def GL_COMPRESSED_RGBA_S3TC_DXT3_EXT_def
      GL_COMPRESSED_RGBA_S3TC_DXT5_EXT_def GL_RGB_def GL_RGBA_def GL_LUMINANCE_def
      GL_BGR_def GL_BGRA_def)

theorem is_compressed_three_enums_witness:
  "is_compressed (example_image\<lparr>m_format := GL_COMPRESSED_RGBA_S3TC_DXT1_EXT\<rparr>)
 \<and> is_compressed (example_image\<lparr>m_format := GL_COMPRESSED_RGBA_S3TC_DXT3_EXT\<rparr>)
 \<and> is_compressed (example_image\<lparr>m_format := GL_COMPRESSED_RGBA_S3TC_DXT5_EXT\<rparr>)
 \<and> m_format example_image = GL_LUMINANCE
 \<and> \<not> is_compressed example_image"
  using is_compressed_three_enums [of "example_image\<lparr>m_format := GL_COMPRESSED_RGBA_S3TC_DXT1_EXT\<rparr>"]
    is_compressed_three_enums [of "example_image\<lparr>m_format := GL_COMPRESSED_RGBA_S3TC_DXT3_EXT\<rparr>"]
    is_compressed_three_enums [of "example_image\<lparr>m_format := GL_COMPRESSED_RGBA_S3TC_DXT5_EXT\<rparr>"]
    is_compressed_three_enums [of example_image]
  by (simp add: example_image_def)

text \<open>
  The claim as stated counts opaque DXT1 among the formats for which the predicate is
  true; an image under the opaque DXT1 enum is classified as not compressed.
\<close>

theorem is_compressed_counterexample:
  "m_format opaque_dxt1_image = GL_COMPRESSED_RGB_S3TC_DXT1_EXT
 \<and> \<not> is_compressed opaque_dxt1_image"
  by (simp add: opaque_dxt1_image_def is_compressed_def GL_COMPRESSED_RGB_S3TC_DXT1_EXT_def
      GL_COMPRESSED_RGBA_S3TC_DXT1_EXT_def GL_COMPRESSED_RGBA_S3TC_DXT3_EXT_def
      GL_COMPRESSED_RGBA_S3TC_DXT5_EXT_def)

section \<open>Alignment of lines\<close>

text \<open>
  Claim C6, as the code has it. On an image that is valid and holds a texture,
  \<open>is_dword_aligned\<close> returns whether
  \<open>get_dword_aligned_linesize(get_width(), m_components * 8)\<close> equals
  \<open>get_width() * m_components\<close>, both in 32-bit arithmetic. That is the case exactly
  when the 32-bit product of width and component count is a multiple of 4 and less
  than \<open>2 ^ 29\<close>; so for a product below \<open>2 ^ 29\<close> it returns whether width times
  component count is a multiple of 4. On any other image an assertion fails.
\<close>

theorem is_dword_aligned_exact:
  "(m_valid img \<and> m_images img \<noteq> [] \<longrightarrow>
      is_dword_aligned img =
        Inr (get_dword_aligned_linesize (m_width (m_images img ! 0)) (m_components img * 8)
             = m_width (m_images img ! 0) * m_components img)
    \<and> is_dword_aligned img =
        Inr (4 dvd unat (m_width (m_images img ! 0) * m_components img)
             \<and> unat (m_width (m_images img ! 0) * m_components img) < 2 ^ 29)
    \<and> (unat (m_width (m_images img ! 0)) * unat (m_components img) < 2 ^ 29 \<longrightarrow>
        is_dword_aligned img =
          Inr (4 dvd unat (m_width (m_images img ! 0)) * unat (m_components img))))
 \<and> (\<not> m_valid img \<or> m_images img = [] \<longrightarrow> is_dword_aligned img = Inl AssertionFailed)"
proof -
  define w where "w = m_width (m_images img ! 0)"
  define c where "c = m_components img"
  have "unat (w * c) = unat w * unat c" if "unat w * unat c < 2 ^ 29"
    using that by (simp add: unat_word_ariths)
  then show ?thesis
    by (auto simp add: is_dword_aligned_eq linesize_eq_iff w_def c_def)
qed

theorem is_dword_aligned_exact_witness:
  "m_valid example_image \<and> m_images example_image \<noteq> []
 \<and> unat (m_width (m_images example_image ! 0)) * unat (m_components example_image) < 2 ^ 29
 \<and> is_dword_aligned example_image = Inr True
 \<and> \<not> m_valid invalid_image \<and> m_images invalid_image = []
 \<and> is_dword_aligned invalid_image = Inl AssertionFailed"
proof -
  have h: "m_valid example_image \<and> m_images example_image \<noteq> []"
    by (simp add: example_image_def)
  have b: "unat (m_width (m_images example_image ! 0)) * unat (m_components example_image) < 2 ^ 29"
    by (simp add: example_image_def example_texture_def)
  from is_dword_aligned_exact [of example_image] h b
  have "is_dword_aligned example_image =
          Inr (4 dvd unat (m_width (m_images example_image ! 0)) * unat (m_components example_image))"
    by blast
  then have t: "is_dword_aligned example_image = Inr True"
    by (simp add: example_image_def example_texture_def)
  have i: "\<not> m_valid invalid_image \<and> m_images invalid_image = []"
    by (simp add: invalid_image_def)
  with is_dword_aligned_exact [of invalid_image]
  have f: "is_dword_aligned invalid_image = Inl AssertionFailed"
    by blast
  from h b t i f show ?thesis
    by blast
qed

text \<open>
  The claim as stated has no bound: for a row of \<open>2 ^ 29\<close> one-byte pixels the line
  size is a multiple of 4, the bit count \<open>2 ^ 32\<close> wraps to 0, and the function
  returns false.
\<close>

theorem is_dword_aligned_counterexample:
  "m_valid wide_image \<and> CDDSImage_get_width wide_image = Inr 536870912
 \<and> m_components wide_image = 1
 \<and> 4 dvd (536870912 * 1 :: nat)
 \<and> is_dword_aligned wide_image = Inr False"
proof -
  have "get_dword_aligned_linesize 536870912 (1 * 8) \<noteq> 536870912 * 1"
    unfolding linesize_eq_iff by simp
  then show ?thesis
    by (simp add: is_dword_aligned_eq wide_image_def CDDSImage_get_width_def
      CSurface_get_width_def assert_def)
qed

section \<open>Mipmap chain of a texture\<close>

text \<open>
  Claim C7. \<open>CTexture::get_mipmap(index)\<close>, in both its public and its protected form,
  returns the Surface stored at \<open>index\<close> when the chain is not empty and
  \<open>index\<close> is less than its length, and fails an assertion in every other case.
\<close>

theorem CTexture_get_mipmap_in_range_or_fail:
  "(m_mipmaps t \<noteq> [] \<and> unat index < length (m_mipmaps t) \<longrightarrow>
      CTexture_get_mipmap t index = Inr (m_mipmaps t ! unat index)
    \<and> CTexture_get_mipmap_protected t index = Inr (m_mipmaps t ! unat index))
 \<and> (m_mipmaps t = [] \<or> length (m_mipmaps t) \<le> unat index \<longrightarrow>
      CTexture_get_mipmap t index = Inl AssertionFailed
    \<and> CTexture_get_mipmap_protected t index = Inl AssertionFailed)"
  by (auto simp add: CTexture_get_mipmap_def CTexture_get_mipmap_protected_def assert_def)

theorem CTexture_get_mipmap_witness:
  "m_mipmaps example_texture \<noteq> [] \<and> unat (1 :: uint) < length (m_mipmaps example_texture)
 \<and> CTexture_get_mipmap example_texture 1 = Inr example_level2
 \<and> CTexture_get_mipmap_protected example_texture 1 = Inr example_level2
 \<and> length (m_mipmaps example_texture) \<le> unat (2 :: uint)
 \<and> CTexture_get_mipmap example_texture 2 = Inl AssertionFailed
 \<and> CTexture_get_mipmap_protected example_texture 2 = Inl AssertionFailed"
  using CTexture_get_mipmap_in_range_or_fail [of example_texture 1]
    CTexture_get_mipmap_in_range_or_fail [of example_texture 2]
  by (simp add: example_texture_def)

text \<open>
  Claim C10, as the code has it. For a texture whose chain holds fewer than
  \<open>2 ^ 32 - 1\<close> Surfaces, \<open>add_mipmap(s)\<close> appends \<open>s\<close>: the count returned by
  \<open>get_num_mipmaps\<close> grows by exactly one, \<open>get_mipmap\<close> at the old count returns
  \<open>s\<close>, every level below the old count is returned as before, and the base surface
  is untouched.
\<close>

theorem add_mipmap_appends:
  assumes "length (m_mipmaps t) < 4294967295"
  shows "unat (CTexture_get_num_mipmaps (CTexture_add_mipmap t s))
           = unat (CTexture_get_num_mipmaps t) + 1
       \<and> CTexture_get_mipmap (CTexture_add_mipmap t s) (CTexture_get_num_mipmaps t) = Inr s
       \<and> (\<forall>i. unat i < unat (CTexture_get_num_mipmaps t) \<longrightarrow>
             CTexture_get_mipmap (CTexture_add_mipmap t s) i = CTexture_get_mipmap t i
           \<and> CTexture_get_mipmap t i = Inr (m_mipmaps t ! unat i))
       \<and> CSurface.truncate (CTexture_add_mipmap t s) = CSurface.truncate t"
proof -
  have n: "unat (CTexture_get_num_mipmaps t) = length (m_mipmaps t)"
    using assms by (simp add: CTexture_get_num_mipmaps_def unat_of_nat)
  have n': "unat (CTexture_get_num_mipmaps (CTexture_add_mipmap t s)) = length (m_mipmaps t) + 1"
  proof -
    have "unat (of_nat (Suc (length (m_mipmaps t))) :: uint) = Suc (length (m_mipmaps t))"
      using assms by (simp only: unat_of_nat) simp
    then show ?thesis
      by (simp add: CTexture_get_num_mipmaps_def CTexture_add_mipmap_def del: of_nat_Suc)
  qed
  have last: "CTexture_get_mipmap (CTexture_add_mipmap t s) (CTexture_get_num_mipmaps t) = Inr s"
    by (simp add: n CTexture_get_mipmap_eq CTexture_add_mipmap_def)
  have old: "\<forall>i. unat i < unat (CTexture_get_num_mipmaps t) \<longrightarrow>
             CTexture_get_mipmap (CTexture_add_mipmap t s) i = CTexture_get_mipmap t i
           \<and> CTexture_get_mipmap t i = Inr (m_mipmaps t ! unat i)"
    by (simp add: n CTexture_get_mipmap_eq CTexture_add_mipmap_def nth_append)
  have base: "CSurface.truncate (CTexture_add_mipmap t s) = CSurface.truncate t"
    by (simp add: CTexture_add_mipmap_def CSurface.truncate_def)
  from n n' last old base show ?thesis
    by simp
qed

theorem add_mipmap_appends_witness:
  "length (m_mipmaps example_texture) < 4294967295
 \<and> CTexture_get_num_mipmaps example_texture = 2
 \<and> CTexture_get_num_mipmaps (CTexture_add_mipmap example_texture example_level1) = 3
 \<and> CTexture_get_mipmap (CTexture_add_mipmap example_texture example_level1) 2 = Inr example_level1
 \<and> CTexture_get_mipmap (CTexture_add_mipmap example_texture example_level1) 1 = Inr example_level2"
proof -
  have h: "length (m_mipmaps example_texture) < 4294967295"
    by (simp add: example_texture_def)
  have c: "CTexture_get_num_mipmaps example_texture = 2"
    by (simp add: CTexture_get_num_mipmaps_def example_texture_def)
  have d: "CTexture_get_num_mipmaps (CTexture_add_mipmap example_texture example_level1) = 3"
    by (simp add: CTexture_get_num_mipmaps_def CTexture_add_mipmap_def example_texture_def)
  have e: "CTexture_get_mipmap example_texture 1 = Inr example_level2"
    by (simp add: CTexture_get_mipmap_eq example_texture_def)
  from add_mipmap_appends [OF h, of example_level1] c d e show ?thesis
    using h by (auto simp add: )
qed

text \<open>
  The claim as stated is for every texture. \<open>get_num_mipmaps\<close> cuts the length of the
  deque to an \<open>unsigned int\<close>: with \<open>2 ^ 32\<close> levels stored the old count reads 0,
  and \<open>get_mipmap\<close> at the old count returns the first old level, not the Surface
  just added.
\<close>

theorem add_mipmap_counterexample:
  "CTexture_get_mipmap (CTexture_add_mipmap many_levels example_level2)
     (CTexture_get_num_mipmaps many_levels) = Inr example_level1
 \<and> example_level1 \<noteq> example_level2"
  by (simp add: CTexture_get_mipmap_eq CTexture_add_mipmap_def CTexture_get_num_mipmaps_def
      many_levels_def nth_append example_level1_def example_level2_def)

section \<open>Cubemap faces\<close>

text \<open>
  Claim C8. \<open>get_cubemap_face(face)\<close> returns the texture at position \<open>face\<close> when
  the image is valid, holds exactly six textures, is of cubemap type and \<open>face < 6\<close>;
  if any of these fails, an assertion fails. With the six textures stored in the order
  +X, -X, +Y, -Y, +Z, -Z, face 0 is +X and face 5 is -Z.
\<close>

theorem get_cubemap_face_contract:
  "(m_valid img \<and> m_images img \<noteq> [] \<and> length (m_images img) = 6
      \<and> m_type img = TextureCubemap \<and> face < 6 \<longrightarrow>
      CDDSImage_get_cubemap_face img face = Inr (m_images img ! unat face))
 \<and> (\<not> m_valid img \<or> m_images img = [] \<or> length (m_images img) \<noteq> 6
      \<or> m_type img \<noteq> TextureCubemap \<or> \<not> face < 6 \<longrightarrow>
      CDDSImage_get_cubemap_face img face = Inl AssertionFailed)
 \<and> (m_valid img \<and> m_type img = TextureCubemap
      \<and> m_images img = [positiveX, negativeX, positiveY, negativeY, positiveZ, negativeZ] \<longrightarrow>
      CDDSImage_get_cubemap_face img 0 = Inr positiveX
    \<and> CDDSImage_get_cubemap_face img 1 = Inr negativeX
    \<and> CDDSImage_get_cubemap_face img 2 = Inr positiveY
    \<and> CDDSImage_get_cubemap_face img 3 = Inr negativeY
    \<and> CDDSImage_get_cubemap_face img 4 = Inr positiveZ
    \<and> CDDSImage_get_cubemap_face img 5 = Inr negativeZ)"
  by (auto simp add: CDDSImage_get_cubemap_face_def assert_def)

theorem get_cubemap_face_contract_witness:
  "m_valid example_cubemap \<and> m_images example_cubemap \<noteq> []
 \<and> length (m_images example_cubemap) = 6 \<and> m_type example_cubemap = TextureCubemap
 \<and> (4 :: uint) < 6
 \<and> CDDSImage_get_cubemap_face example_cubemap 4 = Inr (face_texture 4)
 \<and> \<not> (6 :: uint) < 6
 \<and> CDDSImage_get_cubemap_face example_cubemap 6 = Inl AssertionFailed
 \<and> m_type example_image \<noteq> TextureCubemap
 \<and> CDDSImage_get_cubemap_face example_image 0 = Inl AssertionFailed"
  using get_cubemap_face_contract [of example_cubemap 4]
    get_cubemap_face_contract [of example_cubemap 6]
    get_cubemap_face_contract [of example_image 0]
  by (simp add: example_cubemap_def example_image_def)

section \<open>Block layout\<close>

text \<open>
  Claim C9. A \<open>DXTColBlock\<close> (two 16-bit colours and four 1-byte rows) occupies
  8 bytes, a \<open>DXT3AlphaBlock\<close> (four 16-bit rows) and a \<open>DXT5AlphaBlock\<close> (two
  1-byte reference values and a 6-byte stream of sixteen 3-bit indices) occupy 8 bytes
  each. So a DXT1 block is 8 bytes and a DXT3 or DXT5 block, alpha block plus colour
  block, is 16 bytes: the \<open>blockBytes\<close> of \<open>size_dxtc\<close>, which for one 4 by 4 block
  gives these sizes.
\<close>

theorem block_structs_match_blockBytes:
  "struct_size DXTColBlock = 8
 \<and> struct_size DXT3AlphaBlock = 8
 \<and> struct_size DXT5AlphaBlock = 8
 \<and> map (sizeof \<circ> snd) DXTColBlock = [2, 2, 4]
 \<and> map (sizeof \<circ> snd) DXT3AlphaBlock = [8]
 \<and> map (sizeof \<circ> snd) DXT5AlphaBlock = [1, 1, 6]
 \<and> 8 * sizeof (Array UInt8 6) = 16 * 3
 \<and> blockBytes GL_COMPRESSED_RGBA_S3TC_DXT1_EXT = struct_size DXTColBlock
 \<and> blockBytes GL_COMPRESSED_RGBA_S3TC_DXT3_EXT = struct_size DXT3AlphaBlock + struct_size DXTColBlock
 \<and> blockBytes GL_COMPRESSED_RGBA_S3TC_DXT5_EXT = struct_size DXT5AlphaBlock + struct_size DXTColBlock
 \<and> size_dxtc (example_image\<lparr>m_format := GL_COMPRESSED_RGBA_S3TC_DXT1_EXT\<rparr>) 4 4 = 8
 \<and> size_dxtc (example_image\<lparr>m_format := GL_COMPRESSED_RGBA_S3TC_DXT3_EXT\<rparr>) 4 4 = 16
 \<and> size_dxtc (example_image\<lparr>m_format := GL_COMPRESSED_RGBA_S3TC_DXT5_EXT\<rparr>) 4 4 = 16"
proof -
  have two: "Suc (Suc 0) = 2" by simp
  have s: "struct_size DXTColBlock = 8" "struct_size DXT3AlphaBlock = 8"
    "struct_size DXT5AlphaBlock = 8"
    by (simp_all add: struct_size_def struct_align_def align_up_def DXTColBlock_def
        DXT3AlphaBlock_def DXT5AlphaBlock_def two)
  have m: "map (sizeof \<circ> snd) DXTColBlock = [2, 2, 4]"
    "map (sizeof \<circ> snd) DXT3AlphaBlock = [8]"
    "map (sizeof \<circ> snd) DXT5AlphaBlock = [1, 1, 6]"
    "8 * sizeof (Array UInt8 6) = 16 * 3"
    by (simp_all add: DXTColBlock_def DXT3AlphaBlock_def DXT5AlphaBlock_def)
  have b: "blockBytes GL_COMPRESSED_RGBA_S3TC_DXT1_EXT = 8"
    "blockBytes GL_COMPRESSED_RGBA_S3TC_DXT3_EXT = 16"
    "blockBytes GL_COMPRESSED_RGBA_S3TC_DXT5_EXT = 16"
    by (simp_all add: blockBytes_def GL_COMPRESSED_RGBA_S3TC_DXT1_EXT_def
        GL_COMPRESSED_RGBA_S3TC_DXT3_EXT_def GL_COMPRESSED_RGBA_S3TC_DXT5_EXT_def)
  have z: "size_dxtc (example_image\<lparr>m_format := GL_COMPRESSED_RGBA_S3TC_DXT1_EXT\<rparr>) 4 4 = 8"
    "size_dxtc (example_image\<lparr>m_format := GL_COMPRESSED_RGBA_S3TC_DXT3_EXT\<rparr>) 4 4 = 16"
    "size_dxtc (example_image\<lparr>m_format := GL_COMPRESSED_RGBA_S3TC_DXT5_EXT\<rparr>) 4 4 = 16"
    by (simp_all add: size_dxtc_def b)
  from s m b z show ?thesis
    by simp
qed

section \<open>Facts about the flip engine\<close>










































lemma chop_numeral: "chop n (numeral k) xs = take n xs # chop n (pred_numeral k) (drop n xs)"
  by (simp add: numeral_eq_Suc)


lemma chop_1: "chop n (Suc 0) xs = [take n xs]"
  by simp



lemma swap_rows_3: "swap_rows f [a, b, c] = [f c, b, f a]"
  by (simp add: swap_rows_def upt_conv_Cons)

subsection \<open>The example texture, flipped by hand and by the model\<close>






text \<open>
  A single-component image: three rows of four bytes are put in reverse order; with a
  width of three the stride is still four bytes, and a buffer of three rows of three
  bytes does not hold the rows the flip addresses.
\<close>

lemma luminance_flip_eq:
  "flip example_image s =
     map_option (\<lambda>p. s\<lparr>m_pixels := p\<rparr>)
       (flip_lines id (unat (get_dword_aligned_linesize (m_width s) 8)) (unat (m_height s))
          (m_pixels s))"
proof -
  have "\<not> is_compressed example_image"
    by (simp add: is_compressed_def example_image_def GL_LUMINANCE_def
        GL_COMPRESSED_RGBA_S3TC_DXT1_EXT_def GL_COMPRESSED_RGBA_S3TC_DXT3_EXT_def
        GL_COMPRESSED_RGBA_S3TC_DXT5_EXT_def)
  then show ?thesis
    by (simp add: flip_def) (simp add: example_image_def)
qed

lemma luminance_flip_example:
  "flip example_image
     \<lparr>m_width = 4, m_height = 3, m_depth = 1, m_size = 12,
      m_pixels = [0, 1, 2, 3, 4, 5, 6, 7, 8, 9, 10, 11]\<rparr>
   = Some \<lparr>m_width = 4, m_height = 3, m_depth = 1, m_size = 12,
      m_pixels = [8, 9, 10, 11, 4, 5, 6, 7, 0, 1, 2, 3]\<rparr>"
  by (simp add: luminance_flip_eq unat_linesize flip_lines_def chop_numeral swap_rows_3)

lemma luminance_flip_unpadded:
  "flip example_image
     \<lparr>m_width = 3, m_height = 3, m_depth = 1, m_size = 9,
      m_pixels = [0, 1, 2, 3, 4, 5, 6, 7, 8]\<rparr> = None"
  by (simp add: luminance_flip_eq unat_linesize flip_lines_def)


section \<open>Flipping twice\<close>




end
